theory Spec2Isabelle
  imports Complex_Main
begin

section \<open>Floating-point values\<close>

text \<open>
  \<^verbatim>\<open>focal.py\<close> computes with numpy and torch floats. A float is modelled as a real number
  or one of the three IEEE special values; finite arithmetic is exact (no rounding, no
  overflow), and the special values follow IEEE 754: a division by zero gives an infinity
  or NaN and raises nothing, and NaN is absorbing. The two zeros are one value, read as
  \<^verbatim>\<open>+0.0\<close> where the sign matters (a zero denominator): the zeros that reach a division
  in this file come from a subtraction \<^verbatim>\<open>x - x\<close>, which is \<^verbatim>\<open>+0.0\<close>.
\<close>

datatype float = Fin real | PInf | NInf | NaN

fun fneg :: "float \<Rightarrow> float" where
  "fneg (Fin a) = Fin (- a)"
| "fneg PInf = NInf"
| "fneg NInf = PInf"
| "fneg NaN = NaN"

fun fadd :: "float \<Rightarrow> float \<Rightarrow> float" where
  "fadd (Fin a) (Fin b) = Fin (a + b)"
| "fadd NaN _ = NaN"
| "fadd _ NaN = NaN"
| "fadd PInf NInf = NaN"
| "fadd NInf PInf = NaN"
| "fadd PInf _ = PInf"
| "fadd _ PInf = PInf"
| "fadd NInf _ = NInf"
| "fadd _ NInf = NInf"

definition fsub :: "float \<Rightarrow> float \<Rightarrow> float" where
  "fsub a b = fadd a (fneg b)"

fun fmul :: "float \<Rightarrow> float \<Rightarrow> float" where
  "fmul (Fin a) (Fin b) = Fin (a * b)"
| "fmul NaN _ = NaN"
| "fmul _ NaN = NaN"
| "fmul PInf (Fin b) = (if 0 < b then PInf else if b < 0 then NInf else NaN)"
| "fmul NInf (Fin b) = (if 0 < b then NInf else if b < 0 then PInf else NaN)"
| "fmul (Fin a) PInf = (if 0 < a then PInf else if a < 0 then NInf else NaN)"
| "fmul (Fin a) NInf = (if 0 < a then NInf else if a < 0 then PInf else NaN)"
| "fmul PInf PInf = PInf"
| "fmul NInf NInf = PInf"
| "fmul PInf NInf = NInf"
| "fmul NInf PInf = NInf"

fun fdiv :: "float \<Rightarrow> float \<Rightarrow> float" where
  "fdiv (Fin a) (Fin b) =
     (if b \<noteq> 0 then Fin (a / b)
      else if 0 < a then PInf else if a < 0 then NInf else NaN)"
| "fdiv NaN _ = NaN"
| "fdiv _ NaN = NaN"
| "fdiv (Fin a) PInf = Fin 0"
| "fdiv (Fin a) NInf = Fin 0"
| "fdiv PInf (Fin b) = (if 0 \<le> b then PInf else NInf)"
| "fdiv NInf (Fin b) = (if 0 \<le> b then NInf else PInf)"
| "fdiv PInf _ = NaN"
| "fdiv NInf _ = NaN"

fun fexp :: "float \<Rightarrow> float" where
  "fexp (Fin a) = Fin (exp a)"
| "fexp PInf = PInf"
| "fexp NInf = Fin 0"
| "fexp NaN = NaN"

text \<open>
  \<^verbatim>\<open>x ** g\<close> for a float \<^verbatim>\<open>x\<close> and a finite exponent \<^verbatim>\<open>g\<close> (C \<^verbatim>\<open>pow\<close>):
  anything to the power 0 is 1, also 0 and NaN; a negative base has a power only for an
  integral exponent.
\<close>

definition is_integral :: "real \<Rightarrow> bool" where
  "is_integral g = (g = of_int \<lfloor>g\<rfloor>)"

definition fpow :: "float \<Rightarrow> real \<Rightarrow> float" where
  "fpow x g =
     (if g = 0 then Fin 1
      else case x of
        NaN \<Rightarrow> NaN
      | PInf \<Rightarrow> (if 0 < g then PInf else Fin 0)
      | NInf \<Rightarrow> (if g < 0 then Fin 0
                 else if is_integral g \<and> odd \<lfloor>g\<rfloor> then NInf else PInf)
      | Fin a \<Rightarrow>
          (if 0 < a then Fin (a powr g)
           else if a = 0 then (if 0 < g then Fin 0 else PInf)
           else if is_integral g then Fin (a powi \<lfloor>g\<rfloor>) else NaN))"

text \<open>\<^verbatim>\<open>sum\<close> of a one-dimensional array, from 0.\<close>

definition fsum :: "float list \<Rightarrow> float" where
  "fsum xs = foldl fadd (Fin 0) xs"

section \<open>Tensors\<close>

text \<open>A tensor is a scalar (what \<^verbatim>\<open>mean()\<close> and \<^verbatim>\<open>sum()\<close> return) or a vector
  with one entry per sample.\<close>

datatype tensor = Scalar float | Vec "float list"

fun t_map :: "(float \<Rightarrow> float) \<Rightarrow> tensor \<Rightarrow> tensor" where
  "t_map f (Scalar x) = Scalar (f x)"
| "t_map f (Vec xs) = Vec (map f xs)"

text \<open>Elementwise product; a scalar broadcasts. The two vectors of \<^verbatim>\<open>forward\<close> have
  one shape.\<close>

fun t_mul :: "tensor \<Rightarrow> tensor \<Rightarrow> tensor" where
  "t_mul (Scalar a) (Scalar b) = Scalar (fmul a b)"
| "t_mul (Scalar a) (Vec ys) = Vec (map (fmul a) ys)"
| "t_mul (Vec xs) (Scalar b) = Vec (map (\<lambda>x. fmul x b) xs)"
| "t_mul (Vec xs) (Vec ys) = Vec (map2 fmul xs ys)"

fun t_sum :: "tensor \<Rightarrow> tensor" where
  "t_sum (Scalar x) = Scalar x"
| "t_sum (Vec xs) = Scalar (fsum xs)"

text \<open>\<^verbatim>\<open>mean()\<close> divides the sum by the number of entries; of no entries it is
  \<^verbatim>\<open>0.0 / 0\<close>, NaN.\<close>

fun t_mean :: "tensor \<Rightarrow> tensor" where
  "t_mean (Scalar x) = Scalar x"
| "t_mean (Vec xs) = Scalar (fdiv (fsum xs) (Fin (real (length xs))))"

section \<open>Errors\<close>

text \<open>
  Every exception of the source is a value. The two assertions carry what their messages
  print: \<^verbatim>\<open>The label in class_frequency (y) is out of range 0-(num_classes-1).\<close> and
  \<^verbatim>\<open>Unsupported rule: rule.\<close>
\<close>

datatype error =
    AssertLabelRange int int
  | AssertUnsupportedRule string
  | IndexError
  | TargetOutOfBounds int
  | BatchSizeMismatch
  | WeightShape
  | InvalidReduction string

section \<open>Cross entropy of the library\<close>

text \<open>
  \<^verbatim>\<open>F.cross_entropy(input, target, weight=None, ignore_index=-100, reduction='mean')\<close>
  is torch's, not this repository's; it is modelled from its documentation, for an input
  of finite logits with one row per sample and one column per class, and a target of one
  class index per sample. The loss of a sample with logits \<^verbatim>\<open>x\<close> and target \<^verbatim>\<open>y\<close> is
  \<^verbatim>\<open>- weight[y] * log_softmax(x)[y]\<close>, and 0 for the target \<^verbatim>\<open>-100\<close>; any other target
  outside the classes raises. The mean divides by the summed weights of the targets that
  are not ignored.
\<close>

definition log_softmax_at :: "real list \<Rightarrow> nat \<Rightarrow> real" where
  "log_softmax_at x k = x ! k - ln (sum_list (map exp x))"

definition class_weight :: "float list option \<Rightarrow> nat \<Rightarrow> float" where
  "class_weight w k = (case w of None \<Rightarrow> Fin 1 | Some ws \<Rightarrow> ws ! k)"

definition sample_loss :: "float list option \<Rightarrow> real list \<Rightarrow> int \<Rightarrow> error + float" where
  "sample_loss w x y =
     (if y = - 100 then Inr (Fin 0)
      else if y < 0 \<or> int (length x) \<le> y then Inl (TargetOutOfBounds y)
      else Inr (fmul (class_weight w (nat y)) (Fin (- log_softmax_at x (nat y)))))"

fun collect :: "(error + 'a) list \<Rightarrow> error + 'a list" where
  "collect [] = Inr []"
| "collect (Inl e # _) = Inl e"
| "collect (Inr v # rs) = (case collect rs of Inl e \<Rightarrow> Inl e | Inr vs \<Rightarrow> Inr (v # vs))"

definition weight_fits :: "float list option \<Rightarrow> real list list \<Rightarrow> bool" where
  "weight_fits w input =
     (case w of None \<Rightarrow> True | Some ws \<Rightarrow> list_all (\<lambda>x. length x = length ws) input)"

definition cross_entropy ::
  "real list list \<Rightarrow> int list \<Rightarrow> float list option \<Rightarrow> string \<Rightarrow> error + tensor" where
  "cross_entropy input target w reduction_arg =
     (if length input \<noteq> length target then Inl BatchSizeMismatch
      else if \<not> weight_fits w input then Inl WeightShape
      else case collect (map2 (sample_loss w) input target) of
        Inl e \<Rightarrow> Inl e
      | Inr ls \<Rightarrow>
          if reduction_arg = ''none'' then Inr (Vec ls)
          else if reduction_arg = ''sum'' then Inr (Scalar (fsum ls))
          else if reduction_arg = ''mean'' then
            Inr (Scalar (fdiv (fsum ls)
              (fsum (map (\<lambda>y. class_weight w (nat y)) (filter (\<lambda>y. y \<noteq> - 100) target)))))
          else Inl (InvalidReduction reduction_arg))"

section \<open>FocalLoss\<close>

text \<open>The module's three attributes; \<^verbatim>\<open>weight\<close> is the registered buffer, \<^verbatim>\<open>None\<close>
  by default.\<close>

record FocalLoss =
  gamma :: real
  weight :: "float list option"
  reduction :: string

text \<open>\<^verbatim>\<open>FocalLoss(gamma=1.0, weight=None, reduction='mean')\<close>.\<close>

definition FocalLoss_init :: "real \<Rightarrow> float list option \<Rightarrow> string \<Rightarrow> FocalLoss" where
  "FocalLoss_init g w r = \<lparr>gamma = g, weight = w, reduction = r\<rparr>"

text \<open>Lines 38 to 43 of \<^verbatim>\<open>forward\<close>: the reduction of the per-sample loss.\<close>

definition reduce_loss :: "string \<Rightarrow> tensor \<Rightarrow> tensor" where
  "reduce_loss r loss =
     (if r = ''mean'' then t_mean loss
      else if r = ''sum'' then t_sum loss
      else loss)"

text \<open>Lines 35 and 36: \<^verbatim>\<open>p = exp(-ce_loss)\<close>, \<^verbatim>\<open>loss = (1 - p)**gamma * ce_loss\<close>.\<close>

definition focal_modulate :: "real \<Rightarrow> tensor \<Rightarrow> tensor" where
  "focal_modulate g ce_loss =
     (let p = t_map fexp (t_map fneg ce_loss)
      in t_mul (t_map (\<lambda>q. fpow (fsub (Fin 1) q) g) p) ce_loss)"

text \<open>\<^verbatim>\<open>forward\<close>: the cross entropy is called with \<^verbatim>\<open>input\<close>, \<^verbatim>\<open>target\<close> and
  \<^verbatim>\<open>reduction='none'\<close> only, so its \<^verbatim>\<open>weight\<close> is the default \<^verbatim>\<open>None\<close>.\<close>

definition forward :: "FocalLoss \<Rightarrow> real list list \<Rightarrow> int list \<Rightarrow> error + tensor" where
  "forward self input target =
     (case cross_entropy input target None ''none'' of
        Inl e \<Rightarrow> Inl e
      | Inr ce_loss \<Rightarrow>
          Inr (reduce_loss (reduction self) (focal_modulate (gamma self) ce_loss)))"

section \<open>FocalLossTrainer\<close>

text \<open>
  \<^verbatim>\<open>class_frequency\<close> is a list of integers or a data loader. The loader's items are
  pairs \<^verbatim>\<open>(x, y)\<close>; the constructor reads the \<^verbatim>\<open>y\<close> only, each as one integer (it
  compares \<^verbatim>\<open>y\<close> with \<^verbatim>\<open>num_classes\<close> and indexes a list with it), so a loader is the
  list of its labels, in order.
\<close>

datatype class_frequency_arg = FrequencyList "int list" | DataLoader "int list"

text \<open>\<^verbatim>\<open>xs[i] += 1\<close> on a Python list: a negative index counts from the end, an index
  outside the list raises \<^verbatim>\<open>IndexError\<close>.\<close>

definition list_incr :: "int list \<Rightarrow> int \<Rightarrow> error + int list" where
  "list_incr xs i =
     (if i < - int (length xs) \<or> int (length xs) \<le> i then Inl IndexError
      else if i < 0 then
        Inr (xs[nat (int (length xs) + i) := xs ! nat (int (length xs) + i) + 1])
      else Inr (xs[nat i := xs ! nat i + 1]))"

text \<open>The loop of lines 100 to 102 over the loader's labels.\<close>

fun count_labels :: "int \<Rightarrow> int list \<Rightarrow> int list \<Rightarrow> error + int list" where
  "count_labels n cf [] = Inr cf"
| "count_labels n cf (y # ys) =
     (if \<not> y < n then Inl (AssertLabelRange y (n - 1))
      else case list_incr cf y of
        Inl e \<Rightarrow> Inl e
      | Inr cf' \<Rightarrow> count_labels n cf' ys)"

text \<open>Lines 98 to 105; \<^verbatim>\<open>[0] * num_classes\<close> is empty for a \<^verbatim>\<open>num_classes\<close> below 1.\<close>

definition resolve_class_frequency :: "int \<Rightarrow> class_frequency_arg \<Rightarrow> error + int list" where
  "resolve_class_frequency n arg =
     (case arg of
        DataLoader ys \<Rightarrow> count_labels n (replicate (nat n) 0) ys
      | FrequencyList cf \<Rightarrow> Inr cf)"

text \<open>\<^verbatim>\<open>np.power(beta, k)\<close> for a finite float \<^verbatim>\<open>beta\<close> and an integer \<^verbatim>\<open>k\<close> of the
  frequency list; \<^verbatim>\<open>0.0\<close> to a negative power is \<^verbatim>\<open>inf\<close>.\<close>

definition np_power :: "real \<Rightarrow> int \<Rightarrow> float" where
  "np_power b k =
     (if 0 \<le> k then Fin (b ^ nat k)
      else if b = 0 then PInf
      else Fin (1 / b ^ nat (- k)))"

text \<open>
  Lines 114 to 116, and again 120 to 122: the effective numbers, the raw weights and their
  scaling to \<^verbatim>\<open>num_classes\<close>. Nothing here checks a frequency before dividing by its
  effective number.
\<close>

definition reweight :: "real \<Rightarrow> int \<Rightarrow> int list \<Rightarrow> float list" where
  "reweight beta n cf =
     (let effective_num = map (\<lambda>k. fsub (Fin 1) (np_power beta k)) cf;
          w = map (fdiv (Fin (1 - beta))) effective_num;
          s = fsum w
      in map (\<lambda>x. fmul (fdiv x s) (Fin (of_int n))) w)"

text \<open>
  The trainer's attributes that this file sets. \<^verbatim>\<open>num_classes\<close> is set by the base
  class \<^verbatim>\<open>ClassifierTrainer\<close>, whose constructor (outside this file) also takes the model,
  the learning rate, the weight decay, the devices, the accelerator and the metrics; none of
  them is read here. \<^verbatim>\<open>_weight\<close> is \<^verbatim>\<open>None\<close> for the rule \<^verbatim>\<open>none\<close>, and \<^verbatim>\<open>_drw_weight\<close>
  exists for the rule \<^verbatim>\<open>drw\<close> only.
\<close>

record FocalLossTrainer =
  num_classes :: int
  trainer_gamma :: real
  rule :: string
  beta_reweight :: real
  drw_epochs :: int
  trainer_class_frequency :: "int list"
  trainer_weight :: "float list option"
  trainer_drw_weight :: "float list option"
  focal_fn :: FocalLoss

text \<open>\<^verbatim>\<open>__init__\<close>, with the arguments in the order num_classes, class_frequency, gamma,
  rule, beta_reweight, drw_epochs.\<close>

definition FocalLossTrainer_init ::
  "int \<Rightarrow> class_frequency_arg \<Rightarrow> real \<Rightarrow> string \<Rightarrow> real \<Rightarrow> int \<Rightarrow> error + FocalLossTrainer" where
  "FocalLossTrainer_init n class_frequency g r beta drw =
     (case resolve_class_frequency n class_frequency of
        Inl e \<Rightarrow> Inl e
      | Inr cf \<Rightarrow>
          if r \<notin> set [''none'', ''reweight'', ''drw''] then Inl (AssertUnsupportedRule r)
          else
            let w = (if r = ''none'' then None
                     else if r = ''reweight'' then Some (reweight beta n cf)
                     else Some (replicate (nat n) (Fin 1)));
                dw = (if r = ''none'' \<or> r = ''reweight'' then None
                      else Some (reweight beta n cf))
            in Inr \<lparr>num_classes = n, trainer_gamma = g, rule = r, beta_reweight = beta,
                    drw_epochs = drw, trainer_class_frequency = cf, trainer_weight = w, trainer_drw_weight = dw,
                    focal_fn = FocalLoss_init g w ''mean''\<rparr>)"

text \<open>\<^verbatim>\<open>on_train_epoch_start\<close>; \<^verbatim>\<open>self.current_epoch\<close>, the host loop's counter, is the
  argument \<^verbatim>\<open>epoch\<close>.\<close>

definition on_train_epoch_start :: "int \<Rightarrow> FocalLossTrainer \<Rightarrow> FocalLossTrainer" where
  "on_train_epoch_start epoch self =
     (if epoch = drw_epochs self \<and> rule self = ''drw''
      then self\<lparr>focal_fn := FocalLoss_init (trainer_gamma self) (trainer_drw_weight self) ''mean''\<rparr>
      else self)"

text \<open>The host loop calls the hook once at the start of each epoch, with the epochs
  counted from 0: the trainer as it stands when the batches of epoch \<open>e\<close> run.\<close>

fun at_epoch :: "nat \<Rightarrow> FocalLossTrainer \<Rightarrow> FocalLossTrainer" where
  "at_epoch 0 self = on_train_epoch_start 0 self"
| "at_epoch (Suc e) self = on_train_epoch_start (int (Suc e)) (at_epoch e self)"

text \<open>The loss of \<^verbatim>\<open>training_step\<close>, \<^verbatim>\<open>validation_step\<close> and \<^verbatim>\<open>test_step\<close>:
  \<^verbatim>\<open>self.focal_fn(y_hat, y)\<close>, where \<^verbatim>\<open>y_hat\<close> is the model's output on the batch.\<close>

definition step_loss :: "FocalLossTrainer \<Rightarrow> real list list \<Rightarrow> int list \<Rightarrow> error + tensor" where
  "step_loss self y_hat y = forward (focal_fn self) y_hat y"

section \<open>The effective-number formula\<close>

text \<open>The raw weight \<open>(1 - \<beta>) / (1 - \<beta>\<^sup>k)\<close> of a class of frequency \<open>k\<close>, as a real
  number, and as the float that line 115 computes for a frequency that may be 0.\<close>

definition raw_weight :: "real \<Rightarrow> int \<Rightarrow> real" where
  "raw_weight b k = (1 - b) / (1 - b ^ nat k)"

definition raw_float :: "real \<Rightarrow> int \<Rightarrow> float" where
  "raw_float b k = (if k = 0 then PInf else Fin (raw_weight b k))"

section \<open>Auxiliary facts\<close>

lemma forward_weight_free:
  "gamma a = gamma b \<Longrightarrow> reduction a = reduction b \<Longrightarrow> forward a x y = forward b x y"
  by (simp add: forward_def split: sum.splits)

lemma fsum_Fin_aux: "foldl fadd (Fin a) (map Fin xs) = Fin (a + sum_list xs)"
  by (induction xs arbitrary: a) (simp_all add: add.assoc)

lemma fsum_Fin: "fsum (map Fin xs) = Fin (sum_list xs)"
  by (simp add: fsum_def fsum_Fin_aux)

lemma effective_num_pos:
  assumes "0 \<le> (b::real)" "b < 1" "0 < k"
  shows "0 < 1 - b ^ nat k"
proof -
  obtain m where m: "nat k = Suc m" using assms(3) by (cases "nat k") auto
  have "b ^ m \<le> 1" by (rule power_le_one) (use assms(1,2) in simp_all)
  then have "b * b ^ m \<le> b * 1" using assms(1) by (rule mult_left_mono)
  then show ?thesis using assms(2) by (simp add: m)
qed

lemma raw_weight_pos: "0 \<le> b \<Longrightarrow> b < 1 \<Longrightarrow> 0 < k \<Longrightarrow> 0 < raw_weight b k"
  using effective_num_pos [of b k] by (simp add: raw_weight_def)

lemma raw_step:
  assumes "0 \<le> b" "b < 1" "0 < k"
  shows "fdiv (Fin (1 - b)) (fsub (Fin 1) (np_power b k)) = Fin (raw_weight b k)"
  using effective_num_pos [OF assms] assms(3)
  by (simp add: np_power_def fsub_def raw_weight_def)

lemma sum_list_nonneg_real:
  "list_all (\<lambda>x. 0 < x) xs \<Longrightarrow> 0 \<le> sum_list (xs :: real list)"
  by (induction xs) simp_all

lemma sum_list_pos_real:
  "xs \<noteq> [] \<Longrightarrow> list_all (\<lambda>x. 0 < x) xs \<Longrightarrow> 0 < sum_list (xs :: real list)"
  using sum_list_nonneg_real [of "tl xs"] by (cases xs) (simp_all add: add_pos_nonneg)

lemma raw_weights_pos:
  assumes "0 \<le> b" "b < 1" "list_all (\<lambda>k. 0 < k) cf"
  shows "list_all (\<lambda>x. 0 < x) (map (raw_weight b) cf)"
  using assms(3,1,2) by (induction cf) (simp_all add: raw_weight_pos)

text \<open>With every frequency positive and \<open>0 \<le> \<beta> < 1\<close> nothing divides by zero, and the
  weights are the finite values of the formula.\<close>

lemma reweight_positive:
  assumes b: "0 \<le> b" "b < 1" and pos: "list_all (\<lambda>k. 0 < k) cf"
  shows "reweight b n cf =
    map (\<lambda>k. Fin (raw_weight b k / sum_list (map (raw_weight b) cf) * of_int n)) cf"
proof -
  let ?S = "sum_list (map (raw_weight b) cf)"
  have raw: "map (fdiv (Fin (1 - b))) (map (\<lambda>k. fsub (Fin 1) (np_power b k)) cf)
      = map Fin (map (raw_weight b) cf)"
    using pos b by (induction cf) (simp_all add: raw_step)
  have S: "?S \<noteq> 0" if "cf \<noteq> []"
  proof -
    from that raw_weights_pos [OF b pos] have "0 < ?S"
      by (intro sum_list_pos_real) simp_all
    then show ?thesis by simp
  qed
  show ?thesis
  proof (cases "cf = []")
    case True
    then show ?thesis by (simp add: reweight_def)
  next
    case False
    from S [OF False] show ?thesis
      by (simp add: reweight_def Let_def raw fsum_Fin del: map_map) (simp add: comp_def)
  qed
qed

lemma sum_list_scaled:
  "S \<noteq> 0 \<Longrightarrow> sum_list (map (\<lambda>k. f k / S * c) ks) = sum_list (map f ks) / S * (c::real)"
  by (induction ks) (simp_all add: field_simps)

lemma reweight_replicate:
  assumes "0 < k" "0 \<le> b" "b < 1"
  shows "reweight b n (replicate (nat n) k) = replicate (nat n) (Fin 1)"
proof (cases "0 < n")
  case True
  have pos: "list_all (\<lambda>j. 0 < j) (replicate (nat n) k)"
    using assms(1) by (simp add: list_all_iff)
  have r: "raw_weight b k \<noteq> 0" using raw_weight_pos [OF assms(2,3,1)] by simp
  have m: "real (nat n) \<noteq> 0" using True by simp
  have n: "real_of_int n = real (nat n)" using True by simp
  have S: "sum_list (map (raw_weight b) (replicate (nat n) k)) = real (nat n) * raw_weight b k"
    by (simp add: sum_list_replicate)
  have one: "raw_weight b k / (real (nat n) * raw_weight b k) * real (nat n) = 1"
    using r m by simp
  show ?thesis
    unfolding reweight_positive [OF assms(2,3) pos] S n
    by (simp only: map_replicate one)
next
  case False
  then show ?thesis by (simp add: reweight_def)
qed

text \<open>A frequency 0 has the effective number 0 and the raw weight \<^verbatim>\<open>inf\<close>; the sum of
  the raw weights is then \<^verbatim>\<open>inf\<close>, and the scaling turns \<^verbatim>\<open>inf / inf\<close> into NaN and
  every finite raw weight into 0.\<close>

lemma raw_step_zero:
  assumes "0 \<le> b" "b < 1" "0 \<le> k"
  shows "fdiv (Fin (1 - b)) (fsub (Fin 1) (np_power b k)) = raw_float b k"
proof (cases "k = 0")
  case True
  with assms(2) show ?thesis by (simp add: raw_float_def np_power_def fsub_def)
next
  case False
  with assms show ?thesis by (simp add: raw_float_def raw_step)
qed

lemma foldl_fadd_PInf: "foldl fadd PInf (map (raw_float b) ks) = PInf"
  by (induction ks) (simp_all add: raw_float_def)

lemma foldl_fadd_zero_entry:
  "0 \<in> set ks \<Longrightarrow> foldl fadd (Fin a) (map (raw_float b) ks) = PInf"
proof (induction ks arbitrary: a)
  case Nil
  then show ?case by simp
next
  case (Cons k ks)
  show ?case
  proof (cases "k = 0")
    case True
    then show ?thesis by (simp add: raw_float_def [of b 0] foldl_fadd_PInf)
  next
    case False
    with Cons.prems have "0 \<in> set ks" by simp
    from Cons.IH [OF this] False show ?thesis by (simp add: raw_float_def [of b k])
  qed
qed

lemma reweight_zero_entry:
  assumes b: "0 \<le> b" "b < 1" and nonneg: "list_all (\<lambda>k. 0 \<le> k) cf" and z: "0 \<in> set cf"
  shows "reweight b n cf = map (\<lambda>k. if k = 0 then NaN else Fin 0) cf"
proof -
  have raw: "map (fdiv (Fin (1 - b))) (map (\<lambda>k. fsub (Fin 1) (np_power b k)) cf)
      = map (raw_float b) cf"
    using nonneg b by (induction cf) (simp_all add: raw_step_zero)
  have s: "fsum (map (raw_float b) cf) = PInf"
    using z by (simp add: fsum_def foldl_fadd_zero_entry)
  show ?thesis
    by (simp add: reweight_def Let_def raw s del: map_map) (simp add: raw_float_def)
qed

text \<open>The hook changes \<^verbatim>\<open>focal_fn\<close> only. Under the rule \<^verbatim>\<open>drw\<close> with a threshold that
  the epochs reach, the loss unit is the constructor's before the threshold and the one
  built from \<^verbatim>\<open>_drw_weight\<close> from the threshold on.\<close>

lemma at_epoch_fields:
  "rule (at_epoch e t) = rule t \<and> drw_epochs (at_epoch e t) = drw_epochs t
   \<and> trainer_gamma (at_epoch e t) = trainer_gamma t
   \<and> trainer_drw_weight (at_epoch e t) = trainer_drw_weight t"
  by (induction e) (simp_all add: on_train_epoch_start_def)

lemma drw_schedule:
  assumes "rule t = ''drw''" "0 \<le> drw_epochs t"
  shows "focal_fn (at_epoch e t) =
    (if int e < drw_epochs t then focal_fn t
     else FocalLoss_init (trainer_gamma t) (trainer_drw_weight t) ''mean'')"
proof (induction e)
  case 0
  with assms show ?case by (auto simp: on_train_epoch_start_def)
next
  case (Suc e)
  with assms show ?case
    by (auto simp: on_train_epoch_start_def at_epoch_fields)
qed

lemma equal_shares:
  fixes a c :: real
  assumes "0 < a" "0 < c" "a / (a + c) * 2 = 1" "c / (a + c) * 2 = 1"
  shows "a = c"
proof -
  from assms(3,4) have "a / (a + c) * 2 = c / (a + c) * 2" by (simp only:)
  moreover from assms(1,2) have "a + c \<noteq> 0" by linarith
  ultimately show ?thesis by simp
qed

lemma equal_denominators:
  fixes x y k :: real
  assumes "0 < x" "0 < y" "0 < k" "k / x = k / y"
  shows "x = y"
proof -
  from assms(1-3) have "k \<noteq> 0" "x \<noteq> 0" "y \<noteq> 0" by simp_all
  with assms(4) show ?thesis by simp
qed

lemma drw_weights_differ:
  assumes "0 < b" "b < 1"
  shows "reweight b 2 [10, 100] \<noteq> [Fin 1, Fin 1]"
proof
  assume eq: "reweight b 2 [10, 100] = [Fin 1, Fin 1]"
  define r10 where "r10 = raw_weight b 10"
  define r100 where "r100 = raw_weight b 100"
  define x where "x = 1 - b ^ 10"
  define y where "y = 1 - b ^ 100"
  have b0: "0 \<le> b" using assms(1) by simp
  have p10: "0 < r10" unfolding r10_def using b0 assms(2) by (rule raw_weight_pos) simp
  have p100: "0 < r100" unfolding r100_def using b0 assms(2) by (rule raw_weight_pos) simp
  have "reweight b 2 [10, 100] =
      map (\<lambda>k. Fin (raw_weight b k / sum_list (map (raw_weight b) [10, 100]) * of_int 2)) [10, 100]"
    using b0 assms(2) by (rule reweight_positive) simp
  also have "\<dots> = [Fin (r10 / (r10 + r100) * 2), Fin (r100 / (r10 + r100) * 2)]"
    by (simp add: r10_def r100_def)
  finally have "[Fin (r10 / (r10 + r100) * 2), Fin (r100 / (r10 + r100) * 2)] = [Fin 1, Fin 1]"
    using eq by (simp only:)
  then have "r10 / (r10 + r100) * 2 = 1" "r100 / (r10 + r100) * 2 = 1"
    by (simp_all only: list.inject float.inject)
  with p10 p100 have same: "r10 = r100" by (rule equal_shares)
  have x: "0 < x" unfolding x_def using effective_num_pos [OF b0 assms(2), of 10] by simp
  have y: "0 < y" unfolding y_def using effective_num_pos [OF b0 assms(2), of 100] by simp
  have c: "0 < 1 - b" using assms(2) by simp
  have "r10 = (1 - b) / x" "r100 = (1 - b) / y"
    by (simp_all add: r10_def r100_def raw_weight_def x_def y_def)
  with same have "(1 - b) / x = (1 - b) / y" by (simp only:)
  with x y c have "x = y" by (rule equal_denominators)
  then have "b ^ 10 = b ^ 100" unfolding x_def y_def by linarith
  moreover have "b ^ 100 < b ^ 10" using assms by (intro power_strict_decreasing) simp_all
  ultimately show False by linarith
qed

text \<open>Under the rule \<^verbatim>\<open>drw\<close>, with a threshold that is not negative, the unit of epoch
  \<open>e\<close> carries the uniform vector before the threshold and \<^verbatim>\<open>_drw_weight\<close> from it on.\<close>

lemma drw_weight_schedule:
  assumes "FocalLossTrainer_init n arg g ''drw'' b d = Inr t" and "0 \<le> d"
  shows "weight (focal_fn (at_epoch e t)) =
    (if int e < d then Some (replicate (nat n) (Fin 1)) else trainer_drw_weight t)"
proof -
  from assms(1) have t: "rule t = ''drw''" "drw_epochs t = d"
      "focal_fn t = FocalLoss_init g (Some (replicate (nat n) (Fin 1))) ''mean''"
    by (auto simp: FocalLossTrainer_init_def Let_def split: sum.splits)
  from t(1,2) assms(2) have "0 \<le> drw_epochs t" by simp
  from drw_schedule [OF t(1) this, of e] show ?thesis
    by (simp add: t FocalLoss_init_def)
qed

text \<open>With \<open>\<gamma> = 0\<close> the modulating factor is 1, and the focal loss is the cross entropy
  without weights, whatever the buffer holds: under \<^verbatim>\<open>sum\<close> and \<^verbatim>\<open>none\<close> always, under
  \<^verbatim>\<open>mean\<close> when no target is the ignored index (the library's mean leaves the ignored
  samples out of the count, \<^verbatim>\<open>mean()\<close> does not).\<close>

lemma fmul_one: "fmul (Fin 1) x = x"
  by (cases x) simp_all

lemma modulate_zero_aux:
  "length xs = length ls \<Longrightarrow> map2 fmul (map (\<lambda>q. Fin 1) xs) ls = ls"
  by (induction xs ls rule: list_induct2) (simp_all add: fmul_one)

lemma focal_modulate_zero: "focal_modulate 0 (Vec ls) = Vec ls"
  by (simp add: focal_modulate_def fpow_def modulate_zero_aux del: map_map)

lemma collect_length: "collect rs = Inr vs \<Longrightarrow> length vs = length rs"
  by (induction rs arbitrary: vs rule: collect.induct) (auto split: sum.splits)

lemma fsum_ones: "fsum (map (\<lambda>y. Fin 1) ys) = Fin (real (length ys))"
  using fsum_Fin [of "map (\<lambda>y. 1) ys"] by (simp add: comp_def sum_list_triv)

lemma gamma_zero_is_unweighted_cross_entropy:
  assumes "r = ''sum'' \<or> r = ''none'' \<or> r = ''mean'' \<and> - 100 \<notin> set target"
  shows "forward (FocalLoss_init 0 w r) input target = cross_entropy input target None r"
proof (cases "cross_entropy input target None ''none''")
  case (Inl e)
  then show ?thesis
    by (auto simp: forward_def cross_entropy_def split: if_splits sum.splits)
next
  case (Inr ce)
  then obtain ls where ls: "length input = length target"
    "collect (map2 (sample_loss None) input target) = Inr ls" "ce = Vec ls"
    by (auto simp: cross_entropy_def split: if_splits sum.splits)
  have len: "length ls = length target"
    using collect_length [OF ls(2)] ls(1) by simp
  have flt: "filter (\<lambda>y. y \<noteq> - 100) target = target" if "- 100 \<notin> set target"
    using that by (induction target) auto
  from assms show ?thesis
    using ls len
    by (auto simp: forward_def FocalLoss_init_def cross_entropy_def weight_fits_def
        focal_modulate_zero reduce_loss_def class_weight_def fsum_ones flt)
qed

text \<open>The reduction of lines 38 to 43 on a finite per-sample loss, and an input whose
  cross entropies are 1 and 3: \<open>ln (1 + (e\<^sup>c - 1)) = c\<close>.\<close>

lemma reduce_loss_finite:
  "(xs \<noteq> [] \<longrightarrow>
      reduce_loss ''mean'' (Vec (map Fin xs)) = Scalar (Fin (sum_list xs / real (length xs))))
   \<and> reduce_loss ''sum'' (Vec (map Fin xs)) = Scalar (Fin (sum_list xs))
   \<and> reduce_loss ''none'' v = v"
  by (simp add: reduce_loss_def fsum_Fin)

lemma unit_losses:
  "cross_entropy [[0, ln (exp 1 - 1)], [0, ln (exp 3 - 1)]] [0, 0] None ''none''
   = Inr (Vec [Fin 1, Fin 3])"
  by (simp add: cross_entropy_def weight_fits_def sample_loss_def class_weight_def
      log_softmax_at_def)

section \<open>The claims\<close>

text \<open>
  Claim C1: for every rule other than \<^verbatim>\<open>none\<close> the cross entropy inside the focal loss uses
  the active weight vector, so the output of the focal loss depends on it.
  \<^verbatim>\<open>forward\<close> never reads the buffer: two loss units that differ in their weight vector
  only (any two vectors, or one and \<^verbatim>\<open>None\<close>) give the same result, error or value, on
  every input.
\<close>

theorem forward_ignores_weight:
  "forward (FocalLoss_init g w r) input target = forward (FocalLoss_init g w' r) input target"
  by (simp add: forward_def FocalLoss_init_def split: sum.splits)

text \<open>
  Claim C2: under the rule \<^verbatim>\<open>drw\<close> the loss unit carries the uniform vector before epoch
  \<^verbatim>\<open>drw_epochs\<close> and the reweighted one from it on, and with \<^verbatim>\<open>drw_epochs = 2\<close> and the
  frequencies 10 and 100 the loss of one batch at epoch 1 differs from its loss at epoch 2.
  In that scenario the unit of epoch 1 does carry \<^verbatim>\<open>[1, 1]\<close> and the unit of epoch 2 the
  reweighted vector, which is another vector; the loss of every batch is the same at both
  epochs all the same.
\<close>

theorem drw_switch_keeps_loss:
  "\<exists>t. FocalLossTrainer_init 2 (FrequencyList [10, 100]) (1/2) ''drw'' (9999/10000) 2 = Inr t
   \<and> weight (focal_fn (at_epoch 1 t)) = Some [Fin 1, Fin 1]
   \<and> weight (focal_fn (at_epoch 2 t)) = Some (reweight (9999/10000) 2 [10, 100])
   \<and> reweight (9999/10000) 2 [10, 100] \<noteq> [Fin 1, Fin 1]
   \<and> (\<forall>y_hat y. step_loss (at_epoch 1 t) y_hat y = step_loss (at_epoch 2 t) y_hat y)"
proof -
  define dw where "dw = reweight (9999/10000) 2 [10, 100]"
  define t where "t = \<lparr>num_classes = 2, trainer_gamma = 1/2, rule = ''drw'',
    beta_reweight = 9999/10000, drw_epochs = 2, trainer_class_frequency = [10, 100],
    trainer_weight = Some [Fin 1, Fin 1], trainer_drw_weight = Some dw,
    focal_fn = FocalLoss_init (1/2) (Some [Fin 1, Fin 1]) ''mean''\<rparr>"
  have init: "FocalLossTrainer_init 2 (FrequencyList [10, 100]) (1/2) ''drw'' (9999/10000) 2 = Inr t"
    by (simp add: FocalLossTrainer_init_def resolve_class_frequency_def Let_def t_def dw_def
        numeral_2_eq_2)
  have r: "rule t = ''drw''" "0 \<le> drw_epochs t" by (simp_all add: t_def)
  have f1: "focal_fn (at_epoch 1 t) = FocalLoss_init (1/2) (Some [Fin 1, Fin 1]) ''mean''"
    unfolding drw_schedule [OF r] by (simp add: t_def)
  have f2: "focal_fn (at_epoch 2 t) = FocalLoss_init (1/2) (Some dw) ''mean''"
    unfolding drw_schedule [OF r] by (simp add: t_def)
  have same: "step_loss (at_epoch 1 t) y_hat y = step_loss (at_epoch 2 t) y_hat y" for y_hat y
    unfolding step_loss_def f1 f2
    by (rule forward_weight_free) (simp_all add: FocalLoss_init_def)
  have w1: "weight (focal_fn (at_epoch 1 t)) = Some [Fin 1, Fin 1]"
    unfolding f1 by (simp add: FocalLoss_init_def)
  have w2: "weight (focal_fn (at_epoch 2 t)) = Some (reweight (9999/10000) 2 [10, 100])"
    unfolding f2 by (simp add: FocalLoss_init_def dw_def)
  have d: "reweight (9999/10000) 2 [10, 100] \<noteq> [Fin 1, Fin 1]"
    by (rule drw_weights_differ) simp_all
  from init w1 w2 d same show ?thesis by blast
qed

text \<open>
  Claim C3: a class frequency with a zero entry makes the constructor fail fast, with the
  rule \<^verbatim>\<open>reweight\<close> or \<^verbatim>\<open>drw\<close>, rather than produce non-finite weights.
  The constructor has no check of the frequencies. For \<open>0 \<le> \<beta> < 1\<close> and frequencies that
  are not negative, one of them 0, it returns a trainer, and the reweighted vector is NaN
  at every class of frequency 0 and 0 at every other class.
\<close>

theorem zero_frequency_gives_nan:
  assumes "resolve_class_frequency n arg = Inr cf"
    and "list_all (\<lambda>k. 0 \<le> k) cf" and "0 \<in> set cf" and "0 \<le> b" and "b < 1"
    and "r = ''reweight'' \<or> r = ''drw''"
  shows "\<exists>t. FocalLossTrainer_init n arg g r b d = Inr t
    \<and> (if r = ''reweight'' then trainer_weight t else trainer_drw_weight t)
        = Some (map (\<lambda>k. if k = 0 then NaN else Fin 0) cf)"
  using assms(1,6) reweight_zero_entry [OF assms(4,5,2,3), of n]
  by (auto simp: FocalLossTrainer_init_def Let_def)

theorem zero_frequency_gives_nan_witness:
  "\<exists>t. FocalLossTrainer_init 2 (FrequencyList [5, 0]) (1/2) ''drw'' (9999/10000) 160 = Inr t
    \<and> trainer_drw_weight t = Some [Fin 0, NaN]"
  using zero_frequency_gives_nan [of 2 "FrequencyList [5, 0]" "[5, 0]" "9999/10000" "''drw''"
      "1/2" 160]
  by (simp add: resolve_class_frequency_def)

theorem zero_frequency_constructs:
  "map_sum id trainer_weight
     (FocalLossTrainer_init 2 (FrequencyList [5, 0]) (1/2) ''reweight'' (9999/10000) 160)
   = Inr (Some [Fin 0, NaN])"
  using reweight_zero_entry [of "9999/10000" "[5, 0]" 2]
  by (simp add: FocalLossTrainer_init_def resolve_class_frequency_def Let_def)

text \<open>
  Claim C4: with every frequency strictly positive, the weight vector of \<^verbatim>\<open>reweight\<close>, and
  the terminal one of \<^verbatim>\<open>drw\<close>, is the effective-number formula
  \<open>w\<^sub>c = ((1 - \<beta>) / (1 - \<beta>\<^bsup>n\<^sub>c\<^esup>)) / \<Sum> ((1 - \<beta>) / (1 - \<beta>\<^bsup>n\<^sub>c\<^esup>)) \<times> num_classes\<close>, and it sums
  to \<^verbatim>\<open>num_classes\<close>. Here for \<open>0 \<le> \<beta> < 1\<close> and one frequency per class, in exact
  arithmetic.
\<close>

theorem reweight_effective_number:
  assumes "resolve_class_frequency n arg = Inr cf"
    and "list_all (\<lambda>k. 0 < k) cf" and "0 \<le> b" and "b < 1" and "int (length cf) = n"
    and "r = ''reweight'' \<or> r = ''drw''"
  shows "\<exists>t ws. FocalLossTrainer_init n arg g r b d = Inr t
    \<and> (if r = ''reweight'' then trainer_weight t else trainer_drw_weight t) = Some ws
    \<and> ws = map (\<lambda>k. Fin ((1 - b) / (1 - b ^ nat k)
                 / sum_list (map (\<lambda>k. (1 - b) / (1 - b ^ nat k)) cf) * of_int n)) cf
    \<and> fsum ws = Fin (of_int n)"
proof -
  let ?S = "sum_list (map (raw_weight b) cf)"
  let ?ws = "map (\<lambda>k. Fin (raw_weight b k / ?S * of_int n)) cf"
  have rw: "reweight b n cf = ?ws"
    using assms(2-4) by (simp add: reweight_positive)
  have total: "fsum ?ws = Fin (of_int n)"
  proof (cases "cf = []")
    case True
    with assms(5) show ?thesis by (simp add: fsum_def)
  next
    case False
    with raw_weights_pos [OF assms(3,4,2)] have "0 < ?S"
      by (intro sum_list_pos_real) simp_all
    then have S: "?S \<noteq> 0" by simp
    have "?ws = map Fin (map (\<lambda>k. raw_weight b k / ?S * of_int n) cf)" by simp
    then have "fsum ?ws = Fin (sum_list (map (\<lambda>k. raw_weight b k / ?S * of_int n) cf))"
      by (simp only: fsum_Fin)
    also have "\<dots> = Fin (of_int n)" using S by (simp only: sum_list_scaled [OF S]) simp
    finally show ?thesis .
  qed
  have unf: "raw_weight b = (\<lambda>k. (1 - b) / (1 - b ^ nat k))"
    by (rule ext) (simp add: raw_weight_def)
  show ?thesis
    using assms(1,6) rw total unfolding unf
    by (auto simp: FocalLossTrainer_init_def Let_def)
qed

theorem reweight_effective_number_witness:
  "\<exists>t ws. FocalLossTrainer_init 2 (FrequencyList [10, 100]) (1/2) ''drw'' (9999/10000) 160 = Inr t
    \<and> trainer_drw_weight t = Some ws \<and> length ws = 2 \<and> fsum ws = Fin 2"
proof -
  have "\<exists>t ws. FocalLossTrainer_init 2 (FrequencyList [10, 100]) (1/2) ''drw'' (9999/10000) 160
        = Inr t
    \<and> (if ''drw'' = ''reweight'' then trainer_weight t else trainer_drw_weight t) = Some ws
    \<and> ws = map (\<lambda>k. Fin ((1 - 9999/10000) / (1 - (9999/10000) ^ nat k)
                 / sum_list (map (\<lambda>k. (1 - 9999/10000) / (1 - (9999/10000) ^ nat k)) [10, 100])
                 * of_int 2)) [10, 100]
    \<and> fsum ws = Fin (of_int 2)"
    by (rule reweight_effective_number) (simp_all add: resolve_class_frequency_def)
  then obtain t ws where
    a: "FocalLossTrainer_init 2 (FrequencyList [10, 100]) (1/2) ''drw'' (9999/10000) 160 = Inr t"
    and b: "(if ''drw'' = ''reweight'' then trainer_weight t else trainer_drw_weight t) = Some ws"
    and c: "ws = map (\<lambda>k. Fin ((1 - 9999/10000) / (1 - (9999/10000) ^ nat k)
                 / sum_list (map (\<lambda>k. (1 - 9999/10000) / (1 - (9999/10000) ^ nat k)) [10, 100])
                 * of_int 2)) [10, 100]"
    and e: "fsum ws = Fin (of_int 2)" by blast
  from b have b': "trainer_drw_weight t = Some ws" by simp
  from c have l: "length ws = 2" by (simp only: length_map) simp
  from e have e': "fsum ws = Fin 2" by simp
  from a b' l e' show ?thesis by blast
qed

text \<open>
  Claim C5: a label outside \<open>[0, num_classes)\<close> met while the frequencies are counted from
  a loader, a negative label included, makes the trainer fail fast with an error that names
  the label and the valid range.
  The loop checks \<^verbatim>\<open>y < num_classes\<close> only. With two classes the label 2 raises the
  assertion, whose message names 2 and the range 0-1; the label -1 raises nothing and is
  counted for the last class; the label -3 raises a bare \<^verbatim>\<open>IndexError\<close>.
\<close>

theorem negative_label_counted:
  "resolve_class_frequency 2 (DataLoader [- 1]) = Inr [0, 1]
   \<and> resolve_class_frequency 2 (DataLoader [- 3]) = Inl IndexError
   \<and> resolve_class_frequency 2 (DataLoader [2]) = Inl (AssertLabelRange 2 1)
   \<and> map_sum id trainer_class_frequency
        (FocalLossTrainer_init 2 (DataLoader [0, - 1]) (1/2) ''none'' (9999/10000) 160) = Inr [1, 1]"
  by (simp add: FocalLossTrainer_init_def resolve_class_frequency_def list_incr_def
      numeral_2_eq_2)

text \<open>
  Claim C6: for every input, every weight vector and every reduction mode, the focal loss
  with \<open>\<gamma> = 0\<close> is the plain, optionally weighted, cross entropy under that mode.
  With the weights 2 and 1, one sample of logits \<^verbatim>\<open>[0, 0]\<close> and target 0, under \<^verbatim>\<open>sum\<close>, the
  focal loss with \<open>\<gamma> = 0\<close> is \<open>ln 2\<close>, the unweighted cross entropy; the weighted one is
  \<open>2 ln 2\<close>.
\<close>

theorem gamma_zero_unweighted:
  "forward (FocalLoss_init 0 (Some [Fin 2, Fin 1]) ''sum'') [[0, 0]] [0] = Inr (Scalar (Fin (ln 2)))
   \<and> cross_entropy [[0, 0]] [0] (Some [Fin 2, Fin 1]) ''sum'' = Inr (Scalar (Fin (2 * ln 2)))
   \<and> Fin (ln 2) \<noteq> Fin (2 * ln 2)"
  by (simp add: forward_def FocalLoss_init_def cross_entropy_def weight_fits_def sample_loss_def
      class_weight_def log_softmax_at_def reduce_loss_def focal_modulate_def fsum_def fpow_def)

text \<open>
  Claim C7: a rule that is none of \<^verbatim>\<open>none\<close>, \<^verbatim>\<open>reweight\<close> and \<^verbatim>\<open>drw\<close> makes the
  constructor fail with a descriptive error.
  The constructor returns an error and no trainer: the assertion that names the rule, or,
  raised before it, the error of counting the labels of a loader.
\<close>

theorem unsupported_rule_rejected:
  assumes "r \<noteq> ''none''" and "r \<noteq> ''reweight''" and "r \<noteq> ''drw''"
  shows "FocalLossTrainer_init n arg g r b d =
    (case resolve_class_frequency n arg of
       Inl e \<Rightarrow> Inl e
     | Inr cf \<Rightarrow> Inl (AssertUnsupportedRule r))"
  using assms by (simp add: FocalLossTrainer_init_def split: sum.splits)

theorem unsupported_rule_rejected_witness:
  "FocalLossTrainer_init 2 (FrequencyList [10, 100]) (1/2) ''invalid'' (9999/10000) 160
   = Inl (AssertUnsupportedRule ''invalid'')"
  using unsupported_rule_rejected [of "''invalid''" 2 "FrequencyList [10, 100]" "1/2"
      "9999/10000" 160]
  by (simp add: resolve_class_frequency_def)

text \<open>
  Claim C8: for every \<^verbatim>\<open>num_classes\<close> and frequencies that are all one positive number,
  the weight vector of \<^verbatim>\<open>reweight\<close> is \<^verbatim>\<open>[1, ..., 1]\<close>, with \<^verbatim>\<open>num_classes\<close> entries. Here
  for \<open>0 \<le> \<beta> < 1\<close>, in exact arithmetic.
\<close>

theorem uniform_frequency_unit_weights:
  assumes "0 < k" and "0 \<le> b" and "b < 1"
  shows "\<exists>t. FocalLossTrainer_init n (FrequencyList (replicate (nat n) k)) g ''reweight'' b d
        = Inr t
    \<and> trainer_weight t = Some (replicate (nat n) (Fin 1))"
  using reweight_replicate [OF assms, of n]
  by (simp add: FocalLossTrainer_init_def resolve_class_frequency_def Let_def)

theorem uniform_frequency_unit_weights_witness:
  "\<exists>t. FocalLossTrainer_init 3 (FrequencyList [7, 7, 7]) (1/2) ''reweight'' (9999/10000) 160
        = Inr t
    \<and> trainer_weight t = Some [Fin 1, Fin 1, Fin 1]"
  using uniform_frequency_unit_weights [of 7 "9999/10000" 3 "1/2" 160]
  by (simp add: numeral_3_eq_3)

text \<open>
  Claim C9: of a per-sample loss sequence the mode \<^verbatim>\<open>mean\<close> returns the arithmetic mean,
  \<^verbatim>\<open>sum\<close> the sum and \<^verbatim>\<open>none\<close> the sequence itself; for the losses 1 and 3 these are 2, 4
  and \<^verbatim>\<open>[1, 3]\<close>. Stated of \<^verbatim>\<open>forward\<close>: when the cross entropy of the input succeeds and
  the modulated per-sample loss is the finite sequence \<open>xs\<close>, the unit configured with
  \<^verbatim>\<open>mean\<close> returns the mean of \<open>xs\<close> (for a sequence with an entry; of none, \<^verbatim>\<open>mean()\<close>
  is NaN), with \<^verbatim>\<open>sum\<close> its sum, and with \<^verbatim>\<open>none\<close> the sequence. The instance after it is
  an input whose per-sample losses are exactly 1 and 3.
\<close>

theorem forward_reduction_modes:
  assumes "cross_entropy input target None ''none'' = Inr ce"
    and "focal_modulate g ce = Vec (map Fin xs)"
  shows "(xs \<noteq> [] \<longrightarrow> forward (FocalLoss_init g w ''mean'') input target
            = Inr (Scalar (Fin (sum_list xs / real (length xs)))))
   \<and> forward (FocalLoss_init g w ''sum'') input target = Inr (Scalar (Fin (sum_list xs)))
   \<and> forward (FocalLoss_init g w ''none'') input target = Inr (Vec (map Fin xs))"
  using assms reduce_loss_finite [of xs "Vec (map Fin xs)"]
  by (simp add: forward_def FocalLoss_init_def)

theorem forward_reduction_modes_witness:
  "forward (FocalLoss_init 0 None ''mean'') [[0, ln (exp 1 - 1)], [0, ln (exp 3 - 1)]] [0, 0]
     = Inr (Scalar (Fin 2))
   \<and> forward (FocalLoss_init 0 None ''sum'') [[0, ln (exp 1 - 1)], [0, ln (exp 3 - 1)]] [0, 0]
     = Inr (Scalar (Fin 4))
   \<and> forward (FocalLoss_init 0 None ''none'') [[0, ln (exp 1 - 1)], [0, ln (exp 3 - 1)]] [0, 0]
     = Inr (Vec [Fin 1, Fin 3])"
proof -
  have m: "focal_modulate 0 (Vec [Fin 1, Fin 3]) = Vec (map Fin [1, 3])"
    by (simp add: focal_modulate_zero)
  from forward_reduction_modes [OF unit_losses m, of None] show ?thesis by simp
qed

text \<open>
  Claim C10: for every reduction string other than \<^verbatim>\<open>mean\<close> and \<^verbatim>\<open>sum\<close>, a misspelled
  mode as well as \<^verbatim>\<open>none\<close>, \<^verbatim>\<open>forward\<close> returns the unreduced per-sample loss and raises
  no validation error: its result is the modulated per-sample cross entropy, and its only
  errors are those of the cross entropy.
\<close>

theorem unknown_reduction_unreduced:
  assumes "r \<noteq> ''mean''" and "r \<noteq> ''sum''"
  shows "forward (FocalLoss_init g w r) input target =
    (case cross_entropy input target None ''none'' of
       Inl e \<Rightarrow> Inl e
     | Inr ce \<Rightarrow> Inr (focal_modulate g ce))"
  using assms by (simp add: forward_def FocalLoss_init_def reduce_loss_def split: sum.splits)

theorem unknown_reduction_unreduced_witness:
  "forward (FocalLoss_init (1/2) None ''avg'') [[0, 0], [0, 0]] [0, 1]
   = Inr (Vec [Fin ((1/2) powr (1/2) * ln 2), Fin ((1/2) powr (1/2) * ln 2)])"
  using unknown_reduction_unreduced [of "''avg''" "1/2" None "[[0, 0], [0, 0]]" "[0, 1]"]
  by (simp add: cross_entropy_def weight_fits_def sample_loss_def class_weight_def
      log_softmax_at_def focal_modulate_def fpow_def fsub_def exp_minus)

end
